theory Spec2Isabelle
  imports Main
begin

section \<open>The cache proxy worker (dist/sw.js)\<close>

text \<open>
  The worker is a set of event listeners over three platform services: the cache
  storage (\<open>caches\<close>), the network (\<open>fetch\<close>) and the worker scope (\<open>self\<close>).
  The listeners are embedded as state transformers on a \<open>world\<close> that holds the cache
  storage and the trace of platform operations performed so far. A promise is a
  computation on the world that settles with a value (\<open>Inr\<close>) or with an error
  (\<open>Inl\<close>); \<open>.then\<close> and \<open>.catch\<close> are the two sequencing combinators.

  The platform itself is not part of the repository. Its services are modelled as
  follows: a cache region is an insertion-ordered list of (URL, response) entries, the
  storage is the list of named regions in creation order, a request is identified by its
  URL (the regions hold GET requests only), cache operations always settle
  successfully, and the network, the URL parser and the URL resolver are parameters
  (record \<open>platform\<close>). A chain is run to its end at the place where the listener
  starts it, so the trace lists the operations of one chain in their order; whether the
  platform was told to wait for the chain is recorded with every operation
  (\<open>lifetime\<close>).
\<close>

subsection \<open>Constants\<close>

definition CACHE_NAME :: string where
  "CACHE_NAME = ''shorelore-v1.0.0''"

definition STATIC_CACHE_NAME :: string where
  "STATIC_CACHE_NAME = ''shorelore-static-v1.0.0''"

definition DYNAMIC_CACHE_NAME :: string where
  "DYNAMIC_CACHE_NAME = ''shorelore-dynamic-v1.0.0''"

definition STATIC_FILES :: "string list" where
  "STATIC_FILES =
    [''/'',
     ''/index.html'',
     ''/src/App.jsx'',
     ''/public/manifest.json'',
     ''/public/icons/icon-192x192.png'',
     ''/public/icons/icon-512x512.png'',
     ''https://cdn.tailwindcss.com'',
     ''https://unpkg.com/react@18/umd/react.development.js'',
     ''https://unpkg.com/react-dom@18/umd/react-dom.development.js'',
     ''https://unpkg.com/@babel/standalone/babel.min.js'']"

subsection \<open>Data\<close>

text \<open>A response: \<open>response.status\<close>, \<open>response.statusText\<close>, \<open>response.type\<close> and the body.\<close>

record response =
  status :: nat
  statusText :: string
  resp_type :: string
  body :: string

text \<open>A request: \<open>request.url\<close> (always absolute) and \<open>request.destination\<close>.\<close>

record request =
  url :: string
  destination :: string

text \<open>Every error the worker can meet is a \<open>TypeError\<close>; \<open>message\<close> is \<open>error.message\<close>.\<close>

datatype js_error = TypeError string

fun message :: "js_error \<Rightarrow> string" where
  "message (TypeError m) = m"

text \<open>The reply object of the command channel: \<open>{success: true}\<close> has no \<open>error\<close> field.\<close>

record reply =
  success :: bool
  error :: "string option"

text \<open>
  A message event: \<open>data_type\<close> is \<open>event.data.type\<close> when \<open>event.data\<close> is an object with a
  type, \<open>None\<close> otherwise; \<open>ports\<close> is \<open>event.ports\<close>, each port named by a number.
\<close>

record message_event =
  data_type :: "string option"
  ports :: "nat list"

text \<open>The platform operations a listener performs, in the order they take effect.\<close>

datatype effect =
    ConsoleLog "string list"
  | ConsoleError "string list"
  | NetFetch string
  | CachesOpen string
  | CachesDelete string
  | CachesKeys
  | CachesMatch string
  | CachePut string string response
  | CacheAddAll string "string list"
  | SkipWaiting
  | ClientsClaim
  | PostMessage nat reply

text \<open>
  \<open>Extended\<close>: the operation belongs to the listener's synchronous body or to a chain
  handed to \<open>event.waitUntil\<close> or \<open>event.respondWith\<close>. \<open>Floating\<close>: it belongs to a chain
  whose promise was dropped.
\<close>

datatype lifetime = Extended | Floating

type_synonym cache = "(string \<times> response) list"

type_synonym cache_storage = "(string \<times> cache) list"

record world =
  storage :: cache_storage
  trace :: "(lifetime \<times> effect) list"
  chain :: lifetime

record platform =
  location_origin :: string
  url_origin :: "string \<Rightarrow> string"
  resolve_url :: "string \<Rightarrow> string"
  network :: "string \<Rightarrow> js_error + response"

subsection \<open>The cache storage\<close>

definition open_storage :: "string \<Rightarrow> cache_storage \<Rightarrow> cache_storage" where
  "open_storage name st = (if name \<in> set (map fst st) then st else st @ [(name, [])])"

definition delete_storage :: "string \<Rightarrow> cache_storage \<Rightarrow> cache_storage" where
  "delete_storage name st = filter (\<lambda>(n, c). n \<noteq> name) st"

text \<open>\<open>caches.match\<close>: the first region, in creation order, that holds the key.\<close>

fun match_storage :: "string \<Rightarrow> cache_storage \<Rightarrow> response option" where
  "match_storage k [] = None"
| "match_storage k ((n, c) # st) =
     (case map_of c k of Some r \<Rightarrow> Some r | None \<Rightarrow> match_storage k st)"

text \<open>\<open>cache.put\<close>: an entry with the same key is replaced.\<close>

definition put_cache :: "string \<Rightarrow> response \<Rightarrow> cache \<Rightarrow> cache" where
  "put_cache k r c = filter (\<lambda>(k', r'). k' \<noteq> k) c @ [(k, r)]"

definition update_region :: "string \<Rightarrow> (cache \<Rightarrow> cache) \<Rightarrow> cache_storage \<Rightarrow> cache_storage" where
  "update_region name f st = map (\<lambda>(n, c). if n = name then (n, f c) else (n, c)) st"

fun put_all :: "(string \<times> response) list \<Rightarrow> cache \<Rightarrow> cache" where
  "put_all [] c = c"
| "put_all ((k, r) # rs) c = put_all rs (put_cache k r c)"

text \<open>The content of a named region, when the region exists.\<close>

definition region :: "string \<Rightarrow> cache_storage \<Rightarrow> cache option" where
  "region name st = map_of st name"

text \<open>
  The fetches of \<open>cache.addAll\<close>: every URL is resolved and fetched; a rejected fetch or
  a response outside 200..299 fails the whole batch.
\<close>

fun fetch_all :: "platform \<Rightarrow> string list \<Rightarrow> js_error + (string \<times> response) list" where
  "fetch_all pf [] = Inr []"
| "fetch_all pf (u # us) =
     (case network pf (resolve_url pf u) of
        Inl e \<Rightarrow> Inl e
      | Inr r \<Rightarrow>
          if 200 \<le> status r \<and> status r \<le> 299 then
            (case fetch_all pf us of
               Inl e \<Rightarrow> Inl e
             | Inr rs \<Rightarrow> Inr ((resolve_url pf u, r) # rs))
          else Inl (TypeError ''Request failed''))"

subsection \<open>Promises\<close>

type_synonym 'a promise = "world \<Rightarrow> (js_error + 'a) \<times> world"

definition resolve :: "'a \<Rightarrow> 'a promise" where
  "resolve x = (\<lambda>w. (Inr x, w))"

definition reject :: "js_error \<Rightarrow> 'a promise" where
  "reject e = (\<lambda>w. (Inl e, w))"

definition then_p :: "'a promise \<Rightarrow> ('a \<Rightarrow> 'b promise) \<Rightarrow> 'b promise" where
  "then_p p f = (\<lambda>w. case p w of (Inl e, w') \<Rightarrow> (Inl e, w') | (Inr x, w') \<Rightarrow> f x w')"

definition catch_p :: "'a promise \<Rightarrow> (js_error \<Rightarrow> 'a promise) \<Rightarrow> 'a promise" where
  "catch_p p h = (\<lambda>w. case p w of (Inl e, w') \<Rightarrow> h e w' | (Inr x, w') \<Rightarrow> (Inr x, w'))"

text \<open>\<open>Promise.all\<close>: every member runs; the first rejection, if any, is the result.\<close>

fun promise_all :: "'a promise list \<Rightarrow> 'a list promise" where
  "promise_all [] w = (Inr [], w)"
| "promise_all (p # ps) w =
     (case p w of (r, w1) \<Rightarrow>
        (case promise_all ps w1 of (rs, w2) \<Rightarrow>
           (case r of
              Inl e \<Rightarrow> (Inl e, w2)
            | Inr x \<Rightarrow> (case rs of Inl e \<Rightarrow> (Inl e, w2) | Inr xs \<Rightarrow> (Inr (x # xs), w2)))))"

text \<open>A chain handed to \<open>event.waitUntil\<close> or \<open>event.respondWith\<close>.\<close>

definition wait_until :: "'a promise \<Rightarrow> 'a promise" where
  "wait_until p = (\<lambda>w. case p (w\<lparr>chain := Extended\<rparr>) of (r, w') \<Rightarrow> (r, w'\<lparr>chain := chain w\<rparr>))"

text \<open>
  A chain started as an expression statement: it runs, its result (a rejection too) is
  dropped, and the platform is not told to wait for it.
\<close>

definition detach :: "'a promise \<Rightarrow> unit promise" where
  "detach p = (\<lambda>w. case p (w\<lparr>chain := Floating\<rparr>) of (r, w') \<Rightarrow> (Inr (), w'\<lparr>chain := chain w\<rparr>))"

subsection \<open>Platform operations\<close>

definition emit :: "effect \<Rightarrow> unit promise" where
  "emit e = (\<lambda>w. (Inr (), w\<lparr>trace := trace w @ [(chain w, e)]\<rparr>))"

definition console_log :: "string list \<Rightarrow> unit promise" where
  "console_log args = emit (ConsoleLog args)"

definition console_error :: "string list \<Rightarrow> unit promise" where
  "console_error args = emit (ConsoleError args)"

definition skipWaiting :: "unit promise" where
  "skipWaiting = emit SkipWaiting"

definition clients_claim :: "unit promise" where
  "clients_claim = emit ClientsClaim"

definition postMessage :: "nat \<Rightarrow> reply \<Rightarrow> unit promise" where
  "postMessage port r = emit (PostMessage port r)"

text \<open>\<open>caches.open(name)\<close> creates the region when it is missing; the handle is the name.\<close>

definition caches_open :: "string \<Rightarrow> string promise" where
  "caches_open name =
     then_p (emit (CachesOpen name))
       (\<lambda>_ w. (Inr name, w\<lparr>storage := open_storage name (storage w)\<rparr>))"

definition caches_delete :: "string \<Rightarrow> bool promise" where
  "caches_delete name =
     then_p (emit (CachesDelete name))
       (\<lambda>_ w. (Inr (name \<in> set (map fst (storage w))),
                w\<lparr>storage := delete_storage name (storage w)\<rparr>))"

definition caches_keys :: "string list promise" where
  "caches_keys = then_p (emit CachesKeys) (\<lambda>_ w. (Inr (map fst (storage w)), w))"

definition caches_match :: "string \<Rightarrow> response option promise" where
  "caches_match k = then_p (emit (CachesMatch k)) (\<lambda>_ w. (Inr (match_storage k (storage w)), w))"

definition cache_put :: "string \<Rightarrow> string \<Rightarrow> response \<Rightarrow> unit promise" where
  "cache_put cache k r =
     then_p (emit (CachePut cache k r))
       (\<lambda>_ w. (Inr (), w\<lparr>storage := update_region cache (put_cache k r) (storage w)\<rparr>))"

definition cache_addAll :: "platform \<Rightarrow> string \<Rightarrow> string list \<Rightarrow> unit promise" where
  "cache_addAll pf cache urls =
     then_p (emit (CacheAddAll cache urls))
       (\<lambda>_. then_p (promise_all (map (\<lambda>u. emit (NetFetch (resolve_url pf u))) urls))
         (\<lambda>_ w. case fetch_all pf urls of
                  Inl e \<Rightarrow> (Inl e, w)
                | Inr rs \<Rightarrow> (Inr (), w\<lparr>storage := update_region cache (put_all rs) (storage w)\<rparr>)))"

definition fetch :: "platform \<Rightarrow> request \<Rightarrow> response promise" where
  "fetch pf req = then_p (emit (NetFetch (url req))) (\<lambda>_ w. (network pf (url req), w))"

subsection \<open>The install listener (lines 21-37)\<close>

definition install_chain :: "platform \<Rightarrow> unit promise" where
  "install_chain pf =
     catch_p
       (then_p (caches_open STATIC_CACHE_NAME)
          (\<lambda>cache. then_p (console_log [''[SW] Caching static files''])
             (\<lambda>_. cache_addAll pf cache STATIC_FILES)))
       (\<lambda>error. console_error [''[SW] Failed to cache static files:'', message error])"

text \<open>The result is the settled value of the chain given to \<open>event.waitUntil\<close>.\<close>

definition install :: "platform \<Rightarrow> unit promise" where
  "install pf =
     (\<lambda>w. case console_log [''[SW] Installing service worker...''] w of (_, w1) \<Rightarrow>
        (case wait_until (install_chain pf) w1 of (r, w2) \<Rightarrow>
           (case skipWaiting w2 of (_, w3) \<Rightarrow> (r, w3))))"

subsection \<open>The activate listener (lines 40-60)\<close>

text \<open>The callback of \<open>cacheNames.map\<close> (lines 47-52); \<open>None\<close> is \<open>undefined\<close>.\<close>

definition delete_if_old :: "string \<Rightarrow> bool option promise" where
  "delete_if_old cacheName =
     (if cacheName \<noteq> STATIC_CACHE_NAME \<and> cacheName \<noteq> DYNAMIC_CACHE_NAME then
        then_p (console_log [''[SW] Deleting old cache:'', cacheName])
          (\<lambda>_. then_p (caches_delete cacheName) (\<lambda>deleted. resolve (Some deleted)))
      else resolve None)"

definition activate_chain :: "unit promise" where
  "activate_chain =
     then_p
       (then_p caches_keys (\<lambda>cacheNames. promise_all (map delete_if_old cacheNames)))
       (\<lambda>_. clients_claim)"

definition activate :: "unit promise" where
  "activate =
     (\<lambda>w. case console_log [''[SW] Activating service worker...''] w of (_, w1) \<Rightarrow>
        wait_until activate_chain w1)"

subsection \<open>The fetch listener (lines 63-115)\<close>

text \<open>\<open>new Response('Offline - Content not available', {status: 503, ...})\<close>.\<close>

definition offline_response :: response where
  "offline_response =
     \<lparr>status = 503, statusText = ''Service Unavailable'', resp_type = ''default'',
      body = ''Offline - Content not available''\<rparr>"

text \<open>
  The chain given to \<open>event.respondWith\<close>. It settles with \<open>Some\<close> response, or with
  \<open>None\<close> when the value is \<open>undefined\<close>. A fetched response is never null, so the
  \<open>!response\<close> test of line 85 has no branch here; \<open>response.clone()\<close> is the same value.
\<close>

definition fetch_chain :: "platform \<Rightarrow> request \<Rightarrow> response option promise" where
  "fetch_chain pf req =
     then_p (caches_match (url req))
       (\<lambda>cachedResponse.
          case cachedResponse of
            Some cached \<Rightarrow>
              then_p (console_log [''[SW] Serving from cache:'', url req])
                (\<lambda>_. resolve (Some cached))
          | None \<Rightarrow>
              catch_p
                (then_p (fetch pf req)
                   (\<lambda>response.
                      if status response \<noteq> 200 \<or> resp_type response \<noteq> ''basic'' then
                        resolve (Some response)
                      else
                        then_p
                          (detach
                             (then_p (caches_open DYNAMIC_CACHE_NAME)
                                (\<lambda>cache. detach (cache_put cache (url req) response))))
                          (\<lambda>_. then_p (console_log [''[SW] Fetched and cached:'', url req])
                             (\<lambda>_. resolve (Some response)))))
                (\<lambda>_. if destination req = ''document'' then
                        caches_match (resolve_url pf ''/index.html'')
                      else resolve (Some offline_response)))"

text \<open>
  The listener: \<open>None\<close> when it returns without calling \<open>event.respondWith\<close>, otherwise
  the settled value of the chain.
\<close>

definition fetch_listener ::
  "platform \<Rightarrow> request \<Rightarrow> world \<Rightarrow> (js_error + response option) option \<times> world" where
  "fetch_listener pf req w =
     (if url_origin pf (url req) \<noteq> location_origin pf \<and> url req \<notin> set STATIC_FILES then
        (None, w)
      else (case wait_until (fetch_chain pf req) w of (r, w') \<Rightarrow> (Some r, w')))"

subsection \<open>The message listener (lines 160-182)\<close>

text \<open>\<open>event.ports[0].postMessage(m)\<close>: reading a property of \<open>undefined\<close> throws.\<close>

definition post_to_first_port :: "message_event \<Rightarrow> reply \<Rightarrow> unit promise" where
  "post_to_first_port event m =
     (case ports event of
        [] \<Rightarrow> reject (TypeError ''Cannot read properties of undefined'')
      | port # _ \<Rightarrow> postMessage port m)"

definition update_cache_chain :: "platform \<Rightarrow> message_event \<Rightarrow> unit promise" where
  "update_cache_chain pf event =
     catch_p
       (then_p
          (then_p
             (then_p
                (then_p (caches_delete STATIC_CACHE_NAME)
                   (\<lambda>_. caches_delete DYNAMIC_CACHE_NAME))
                (\<lambda>_. caches_open STATIC_CACHE_NAME))
             (\<lambda>cache. cache_addAll pf cache STATIC_FILES))
          (\<lambda>_. post_to_first_port event \<lparr>success = True, error = None\<rparr>))
       (\<lambda>error. post_to_first_port event \<lparr>success = False, error = Some (message error)\<rparr>)"

definition message_listener :: "platform \<Rightarrow> message_event \<Rightarrow> world \<Rightarrow> world" where
  "message_listener pf event w =
     (let w1 = (if data_type event = Some ''SKIP_WAITING'' then snd (skipWaiting w) else w)
      in if data_type event = Some ''UPDATE_CACHE'' then
           snd (detach (update_cache_chain pf event) w1)
         else w1)"

subsection \<open>Traces and storages the listeners produce\<close>

text \<open>What the activate listener logs and deletes for the region names it enumerated.\<close>

definition old_trace :: "lifetime \<Rightarrow> string list \<Rightarrow> (lifetime \<times> effect) list" where
  "old_trace l names =
     concat (map (\<lambda>n. if n \<noteq> STATIC_CACHE_NAME \<and> n \<noteq> DYNAMIC_CACHE_NAME then
                         [(l, ConsoleLog [''[SW] Deleting old cache:'', n]), (l, CachesDelete n)]
                       else []) names)"

text \<open>The storage once every old region among \<open>names\<close> is deleted.\<close>

definition keep_current :: "string list \<Rightarrow> cache_storage \<Rightarrow> cache_storage" where
  "keep_current names st =
     filter (\<lambda>(n, c). n \<notin> set names \<or> n = STATIC_CACHE_NAME \<or> n = DYNAMIC_CACHE_NAME) st"

text \<open>The network operations of one \<open>cache.addAll\<close>.\<close>

definition fetch_trace :: "platform \<Rightarrow> lifetime \<Rightarrow> string list \<Rightarrow> (lifetime \<times> effect) list" where
  "fetch_trace pf l urls = map (\<lambda>u. (l, NetFetch (resolve_url pf u))) urls"

text \<open>The operations of the UPDATE_CACHE chain before its reply.\<close>

definition update_trace :: "platform \<Rightarrow> lifetime \<Rightarrow> (lifetime \<times> effect) list" where
  "update_trace pf l =
     [(l, CachesDelete STATIC_CACHE_NAME),
      (l, CachesDelete DYNAMIC_CACHE_NAME),
      (l, CachesOpen STATIC_CACHE_NAME),
      (l, CacheAddAll STATIC_CACHE_NAME STATIC_FILES)] @ fetch_trace pf l STATIC_FILES"

text \<open>The storage after the two deletions and the re-opening of the STATIC region.\<close>

definition cleared :: "cache_storage \<Rightarrow> cache_storage" where
  "cleared st =
     open_storage STATIC_CACHE_NAME
       (delete_storage DYNAMIC_CACHE_NAME (delete_storage STATIC_CACHE_NAME st))"

subsection \<open>Sample platforms, worlds and events\<close>

text \<open>
  A worker served from \<open>https://shorelore.app\<close>. The origin of an https URL is the
  scheme and the host; a path is resolved against the worker's origin; the network
  answers every URL with a same-origin 200 whose body is the URL.
\<close>

definition online :: platform where
  "online =
     \<lparr>location_origin = ''https://shorelore.app'',
      url_origin = (\<lambda>u. take 8 u @ takeWhile (\<lambda>c. c \<noteq> CHR ''/'') (drop 8 u)),
      resolve_url = (\<lambda>u. if take 1 u = ''/'' then ''https://shorelore.app'' @ u else u),
      network = (\<lambda>u. Inr \<lparr>status = 200, statusText = ''OK'', resp_type = ''basic'', body = u\<rparr>)\<rparr>"

text \<open>The same worker with the network unreachable.\<close>

definition offline :: platform where
  "offline = online\<lparr>network := (\<lambda>u. Inl (TypeError ''Failed to fetch''))\<rparr>"


definition empty_world :: world where
  "empty_world = \<lparr>storage = [], trace = [], chain = Extended\<rparr>"

definition posts_request :: request where
  "posts_request = \<lparr>url = ''https://shorelore.app/api/posts'', destination = ''empty''\<rparr>"

definition posts_response :: response where
  "posts_response =
     \<lparr>status = 200, statusText = ''OK'', resp_type = ''basic'',
      body = ''https://shorelore.app/api/posts''\<rparr>"

definition page_request :: request where
  "page_request = \<lparr>url = ''https://shorelore.app/feed'', destination = ''document''\<rparr>"

definition index_request :: request where
  "index_request = \<lparr>url = ''https://shorelore.app/index.html'', destination = ''document''\<rparr>"

definition foreign_request :: request where
  "foreign_request = \<lparr>url = ''https://tiles.example.org/1/2/3.png'', destination = ''image''\<rparr>"

definition index_response :: response where
  "index_response =
     \<lparr>status = 200, statusText = ''OK'', resp_type = ''basic'', body = ''<html></html>''\<rparr>"

text \<open>A world whose STATIC region holds the root document.\<close>

definition shell_world :: world where
  "shell_world =
     \<lparr>storage = [(''shorelore-static-v1.0.0'', [(''https://shorelore.app/index.html'', index_response)])],
      trace = [], chain = Extended\<rparr>"

text \<open>
  A world left by an earlier version of the worker: its region still exists, and holds
  a response that the DYNAMIC region of the current version holds too.
\<close>

definition upgraded_world :: world where
  "upgraded_world =
     \<lparr>storage =
        [(''shorelore-v0.9.0'', [(''https://shorelore.app/api/posts'', posts_response)]),
         (''shorelore-dynamic-v1.0.0'', [(''https://shorelore.app/api/posts'', posts_response)])],
      trace = [], chain = Extended\<rparr>"

text \<open>A world whose DYNAMIC region holds one fetched response, and no other region.\<close>

definition dynamic_world :: world where
  "dynamic_world =
     \<lparr>storage =
        [(''shorelore-dynamic-v1.0.0'', [(''https://shorelore.app/api/posts'', posts_response)])],
      trace = [], chain = Extended\<rparr>"

definition update_with_port :: message_event where
  "update_with_port = \<lparr>data_type = Some ''UPDATE_CACHE'', ports = [7]\<rparr>"

definition update_without_port :: message_event where
  "update_without_port = \<lparr>data_type = Some ''UPDATE_CACHE'', ports = []\<rparr>"

section \<open>Properties\<close>

subsection \<open>Cache storage\<close>

lemmas promise_defs = resolve_def reject_def then_p_def catch_p_def wait_until_def detach_def
  emit_def console_log_def console_error_def skipWaiting_def clients_claim_def postMessage_def
  caches_open_def caches_delete_def caches_keys_def caches_match_def cache_put_def fetch_def

lemma map_of_filter_key: "map_of (filter (\<lambda>(k', r'). k' \<noteq> k) c) k = None"
  by (induction c) auto

lemma map_of_filter_other:
  "j \<noteq> k \<Longrightarrow> map_of (filter (\<lambda>(k', r'). k' \<noteq> k) c) j = map_of c j"
  by (induction c) auto

lemma map_of_put_cache:
  "map_of (put_cache k r c) j = (if j = k then Some r else map_of c j)"
  by (auto simp: put_cache_def map_add_def map_of_filter_key map_of_filter_other
      split: option.splits)

lemma map_of_put_all:
  "map_of (put_all rs c) k = None \<longleftrightarrow> k \<notin> fst ` set rs \<and> map_of c k = None"
proof (induction rs arbitrary: c)
  case Nil
  then show ?case by simp
next
  case (Cons a rs)
  obtain j r where a: "a = (j, r)" by (cases a)
  show ?case unfolding a by (auto simp: Cons.IH map_of_put_cache)
qed



lemma update_region_absent:
  "name \<notin> set (map fst st) \<Longrightarrow> update_region name f st = st"
  by (induction st) (auto simp: update_region_def)


lemma match_storage_None_iff:
  "match_storage k st = None \<longleftrightarrow> (\<forall>(n, c) \<in> set st. map_of c k = None)"
  by (induction st) (auto split: option.splits)



lemma fetch_all_keys:
  "fetch_all pf urls = Inr rs \<Longrightarrow> map fst rs = map (resolve_url pf) urls"
  by (induction urls arbitrary: rs) (auto split: sum.splits if_splits)

lemma fetch_all_rejected:
  "u \<in> set urls \<Longrightarrow> network pf (resolve_url pf u) = Inl e \<Longrightarrow> \<exists>e'. fetch_all pf urls = Inl e'"
  by (induction urls) (auto split: sum.splits)

subsection \<open>The fetch listener\<close>

text \<open>What the listener does with an intercepted request that no region holds.\<close>

lemma fetch_listener_miss:
  assumes "url_origin pf (url req) = location_origin pf \<or> url req \<in> set STATIC_FILES"
      and "match_storage (url req) (storage w) = None"
  shows "fetch_listener pf req w =
    (case network pf (url req) of
       Inr resp \<Rightarrow>
         if status resp \<noteq> 200 \<or> resp_type resp \<noteq> ''basic'' then
           (Some (Inr (Some resp)),
            w\<lparr>trace := trace w @
              [(Extended, CachesMatch (url req)), (Extended, NetFetch (url req))]\<rparr>)
         else
           (Some (Inr (Some resp)),
            w\<lparr>storage := update_region DYNAMIC_CACHE_NAME (put_cache (url req) resp)
                          (open_storage DYNAMIC_CACHE_NAME (storage w)),
              trace := trace w @
              [(Extended, CachesMatch (url req)), (Extended, NetFetch (url req)),
               (Floating, CachesOpen DYNAMIC_CACHE_NAME),
               (Floating, CachePut DYNAMIC_CACHE_NAME (url req) resp),
               (Extended, ConsoleLog [''[SW] Fetched and cached:'', url req])]\<rparr>)
     | Inl e \<Rightarrow>
         if destination req = ''document'' then
           (Some (Inr (match_storage (resolve_url pf ''/index.html'') (storage w))),
            w\<lparr>trace := trace w @
              [(Extended, CachesMatch (url req)), (Extended, NetFetch (url req)),
               (Extended, CachesMatch (resolve_url pf ''/index.html''))]\<rparr>)
         else
           (Some (Inr (Some offline_response)),
            w\<lparr>trace := trace w @
              [(Extended, CachesMatch (url req)), (Extended, NetFetch (url req))]\<rparr>))"
  using assms
  by (auto simp: fetch_listener_def fetch_chain_def promise_defs split: sum.splits)

lemma fetch_listener_hit:
  assumes "url_origin pf (url req) = location_origin pf \<or> url req \<in> set STATIC_FILES"
      and "match_storage (url req) (storage w) = Some cached"
  shows "fetch_listener pf req w =
     (Some (Inr (Some cached)),
      w\<lparr>trace := trace w @
         [(Extended, CachesMatch (url req)),
          (Extended, ConsoleLog [''[SW] Serving from cache:'', url req])]\<rparr>)"
  using assms by (auto simp: fetch_listener_def fetch_chain_def promise_defs)

text \<open>The sample requests on the sample platforms.\<close>

lemma posts_intercepted: "url_origin online (url posts_request) = location_origin online"
  by (simp add: online_def posts_request_def)

lemma page_intercepted: "url_origin offline (url page_request) = location_origin offline"
  by (simp add: online_def offline_def page_request_def)

lemma foreign_not_intercepted:
  "url_origin online (url foreign_request) \<noteq> location_origin online \<and>
   url foreign_request \<notin> set STATIC_FILES"
  by (simp add: online_def foreign_request_def STATIC_FILES_def)

text \<open>
  C2: a request of another origin that is not an enumerated static URL is not responded
  to; every other request is first looked up in the cache storage, and a stored response
  is returned at once, with no network fetch.
\<close>

theorem fetch_skips_foreign_and_serves_cached:
  "(url_origin pf (url req) \<noteq> location_origin pf \<and> url req \<notin> set STATIC_FILES \<longrightarrow>
      fetch_listener pf req w = (None, w)) \<and>
   (url_origin pf (url req) = location_origin pf \<or> url req \<in> set STATIC_FILES \<longrightarrow>
      (\<exists>rest. trace (snd (fetch_listener pf req w)) =
                 trace w @ (Extended, CachesMatch (url req)) # rest) \<and>
      (\<forall>cached. match_storage (url req) (storage w) = Some cached \<longrightarrow>
         fetch_listener pf req w =
           (Some (Inr (Some cached)),
            w\<lparr>trace := trace w @
               [(Extended, CachesMatch (url req)),
                (Extended, ConsoleLog [''[SW] Serving from cache:'', url req])]\<rparr>)))"
proof (intro conjI impI allI)
  assume "url_origin pf (url req) \<noteq> location_origin pf \<and> url req \<notin> set STATIC_FILES"
  then show "fetch_listener pf req w = (None, w)"
    by (simp add: fetch_listener_def)
next
  assume own: "url_origin pf (url req) = location_origin pf \<or> url req \<in> set STATIC_FILES"
  show "\<exists>rest. trace (snd (fetch_listener pf req w)) =
                 trace w @ (Extended, CachesMatch (url req)) # rest"
  proof (cases "match_storage (url req) (storage w)")
    case None
    show ?thesis
      unfolding fetch_listener_miss[OF own None]
      by (simp split: sum.splits)
  next
    case (Some cached)
    show ?thesis
      unfolding fetch_listener_hit[OF own Some] by simp
  qed
next
  fix cached
  assume "url_origin pf (url req) = location_origin pf \<or> url req \<in> set STATIC_FILES"
    and "match_storage (url req) (storage w) = Some cached"
  then show "fetch_listener pf req w =
           (Some (Inr (Some cached)),
            w\<lparr>trace := trace w @
               [(Extended, CachesMatch (url req)),
                (Extended, ConsoleLog [''[SW] Serving from cache:'', url req])]\<rparr>)"
    by (rule fetch_listener_hit)
qed

theorem fetch_skips_foreign_and_serves_cached_witness:
  "fetch_listener online foreign_request empty_world = (None, empty_world) \<and>
   match_storage (url index_request) (storage shell_world) = Some index_response \<and>
   fetch_listener online index_request shell_world =
     (Some (Inr (Some index_response)),
      shell_world\<lparr>trace :=
        [(Extended, CachesMatch ''https://shorelore.app/index.html''),
         (Extended, ConsoleLog [''[SW] Serving from cache:'',
                                ''https://shorelore.app/index.html''])]\<rparr>)"
proof -
  have own: "url_origin online (url index_request) = location_origin online"
    by (simp add: online_def index_request_def)
  have hit: "match_storage (url index_request) (storage shell_world) = Some index_response"
    by (simp add: index_request_def shell_world_def)
  have skipped: "fetch_listener online foreign_request empty_world = (None, empty_world)"
    using fetch_skips_foreign_and_serves_cached[of online foreign_request empty_world]
      foreign_not_intercepted by blast
  have served: "fetch_listener online index_request shell_world =
     (Some (Inr (Some index_response)),
      shell_world\<lparr>trace := trace shell_world @
         [(Extended, CachesMatch (url index_request)),
          (Extended, ConsoleLog [''[SW] Serving from cache:'', url index_request])]\<rparr>)"
    using fetch_skips_foreign_and_serves_cached[of online index_request shell_world] own hit
    by blast
  have "trace shell_world = []" by (simp add: shell_world_def)
  with skipped hit served show ?thesis by (simp add: index_request_def)
qed





text \<open>
  C9: for a navigation request that no region holds and whose network fetch rejects,
  when no region holds /index.html either, the promise given to respondWith resolves
  with no response (the undefined of the failed lookup), not with the synthetic 503.
\<close>

theorem fetch_offline_navigation_without_shell:
  assumes "url_origin pf (url req) = location_origin pf \<or> url req \<in> set STATIC_FILES"
      and "match_storage (url req) (storage w) = None"
      and "network pf (url req) = Inl e"
      and "destination req = ''document''"
      and "match_storage (resolve_url pf ''/index.html'') (storage w) = None"
  shows "fst (fetch_listener pf req w) = Some (Inr None) \<and>
         fst (fetch_listener pf req w) \<noteq> Some (Inr (Some offline_response))"
  unfolding fetch_listener_miss[OF assms(1,2)]
  by (simp add: assms(3,4,5))

theorem fetch_offline_navigation_without_shell_witness:
  "destination page_request = ''document'' \<and>
   match_storage (resolve_url offline ''/index.html'') (storage empty_world) = None \<and>
   fst (fetch_listener offline page_request empty_world) = Some (Inr None)"
proof -
  have miss: "match_storage (url page_request) (storage empty_world) = None"
    by (simp add: empty_world_def)
  have down: "network offline (url page_request) = Inl (TypeError ''Failed to fetch'')"
    by (simp add: offline_def)
  have nav: "destination page_request = ''document''"
    by (simp add: page_request_def)
  have none: "match_storage (resolve_url offline ''/index.html'') (storage empty_world) = None"
    by (simp add: empty_world_def)
  from fetch_offline_navigation_without_shell[OF disjI1[OF page_intercepted] miss down nav none]
    nav none
  show ?thesis by simp
qed



text \<open>
  C7 (the cache write of the fetch listener): when a fetched response is stored, the
  opening of the DYNAMIC region and the write into it run in a chain whose promise is
  dropped: neither is part of the chain handed to respondWith, and nothing hands them to
  waitUntil.
\<close>

theorem fetch_cache_write_is_floating:
  assumes "url_origin pf (url req) = location_origin pf \<or> url req \<in> set STATIC_FILES"
      and "match_storage (url req) (storage w) = None"
      and "network pf (url req) = Inr resp"
      and "status resp = 200" and "resp_type resp = ''basic''"
  shows "trace (snd (fetch_listener pf req w)) =
      trace w @
        [(Extended, CachesMatch (url req)),
         (Extended, NetFetch (url req)),
         (Floating, CachesOpen DYNAMIC_CACHE_NAME),
         (Floating, CachePut DYNAMIC_CACHE_NAME (url req) resp),
         (Extended, ConsoleLog [''[SW] Fetched and cached:'', url req])]"
  unfolding fetch_listener_miss[OF assms(1,2)] by (simp add: assms(3,4,5))

theorem fetch_cache_write_is_floating_witness:
  "(Floating, CachePut ''shorelore-dynamic-v1.0.0'' ''https://shorelore.app/api/posts''
      posts_response)
     \<in> set (trace (snd (fetch_listener online posts_request empty_world)))"
proof -
  have miss: "match_storage (url posts_request) (storage empty_world) = None"
    by (simp add: empty_world_def)
  have ok: "network online (url posts_request) = Inr posts_response"
    by (simp add: online_def posts_request_def posts_response_def)
  have s: "status posts_response = 200" and t: "resp_type posts_response = ''basic''"
    by (simp_all add: posts_response_def)
  show ?thesis
    unfolding fetch_cache_write_is_floating[OF disjI1[OF posts_intercepted] miss ok s t]
    by (simp add: posts_request_def DYNAMIC_CACHE_NAME_def)
qed

subsection \<open>The activate listener\<close>

lemma delete_if_old_run:
  "delete_if_old n w =
     (if n \<noteq> STATIC_CACHE_NAME \<and> n \<noteq> DYNAMIC_CACHE_NAME then
        (Inr (Some (n \<in> set (map fst (storage w)))),
         w\<lparr>storage := delete_storage n (storage w),
           trace := trace w @ [(chain w, ConsoleLog [''[SW] Deleting old cache:'', n]),
                               (chain w, CachesDelete n)]\<rparr>)
      else (Inr None, w))"
  by (simp add: delete_if_old_def promise_defs)

lemma keep_current_Cons:
  "keep_current (a # names) st =
     (if a \<noteq> STATIC_CACHE_NAME \<and> a \<noteq> DYNAMIC_CACHE_NAME
      then keep_current names (delete_storage a st) else keep_current names st)"
  by (auto simp: keep_current_def delete_storage_def intro!: filter_cong)

lemma keep_current_keys:
  "keep_current (map fst st) st =
     filter (\<lambda>(n, c). n = STATIC_CACHE_NAME \<or> n = DYNAMIC_CACHE_NAME) st"
  unfolding keep_current_def by (rule filter_cong) force+

text \<open>The loop over the enumerated names: every old region goes, no deletion rejects.\<close>

lemma promise_all_delete_if_old:
  "\<exists>rs. promise_all (map delete_if_old names) w =
     (Inr rs, w\<lparr>storage := keep_current names (storage w),
               trace := trace w @ old_trace (chain w) names\<rparr>)"
proof (induction names arbitrary: w)
  case Nil
  then show ?case by (simp add: keep_current_def old_trace_def)
next
  case (Cons a names)
  define w1 where "w1 = (if a \<noteq> STATIC_CACHE_NAME \<and> a \<noteq> DYNAMIC_CACHE_NAME then
         w\<lparr>storage := delete_storage a (storage w),
           trace := trace w @ [(chain w, ConsoleLog [''[SW] Deleting old cache:'', a]),
                               (chain w, CachesDelete a)]\<rparr> else w)"
  have "\<exists>r. delete_if_old a w = (Inr r, w1)"
    by (simp add: w1_def delete_if_old_run)
  then obtain r where step: "delete_if_old a w = (Inr r, w1)" by blast
  have c: "chain w1 = chain w" by (simp add: w1_def)
  from Cons.IH[of w1] obtain rs where rest: "promise_all (map delete_if_old names) w1 =
     (Inr rs, w1\<lparr>storage := keep_current names (storage w1),
               trace := trace w1 @ old_trace (chain w1) names\<rparr>)" by blast
  have "promise_all (map delete_if_old (a # names)) w =
     (Inr (r # rs), w1\<lparr>storage := keep_current names (storage w1),
               trace := trace w1 @ old_trace (chain w1) names\<rparr>)"
    using step rest by simp
  also have "w1\<lparr>storage := keep_current names (storage w1),
               trace := trace w1 @ old_trace (chain w1) names\<rparr> =
       w\<lparr>storage := keep_current (a # names) (storage w),
               trace := trace w @ old_trace (chain w) (a # names)\<rparr>"
    unfolding c by (simp add: w1_def keep_current_Cons old_trace_def)
  finally show ?case by blast
qed

lemma activate_run:
  "activate w =
     (Inr (),
      w\<lparr>storage := filter (\<lambda>(n, c). n = STATIC_CACHE_NAME \<or> n = DYNAMIC_CACHE_NAME) (storage w),
        trace := trace w @ [(chain w, ConsoleLog [''[SW] Activating service worker...'']),
                            (Extended, CachesKeys)]
                  @ old_trace Extended (map fst (storage w)) @ [(Extended, ClientsClaim)]\<rparr>)"
proof -
  let ?w1 = "w\<lparr>chain := Extended,
               trace := trace w @ [(chain w, ConsoleLog [''[SW] Activating service worker...'']),
                                   (Extended, CachesKeys)]\<rparr>"
  obtain rs where "promise_all (map delete_if_old (map fst (storage w))) ?w1 =
     (Inr rs, ?w1\<lparr>storage := keep_current (map fst (storage w)) (storage ?w1),
               trace := trace ?w1 @ old_trace (chain ?w1) (map fst (storage w))\<rparr>)"
    using promise_all_delete_if_old by blast
  then show ?thesis
    by (simp add: activate_def activate_chain_def promise_defs keep_current_keys del: map_map)
qed

lemma old_trace_deletes:
  "n \<in> set names \<Longrightarrow> n \<noteq> STATIC_CACHE_NAME \<Longrightarrow> n \<noteq> DYNAMIC_CACHE_NAME \<Longrightarrow>
   (l, CachesDelete n) \<in> set (old_trace l names)"
  by (auto simp: old_trace_def)

lemma old_trace_no_claim: "(l', ClientsClaim) \<notin> set (old_trace l names)"
  by (auto simp: old_trace_def split: if_splits)

text \<open>
  C5: the chain of the activate listener settles successfully; afterwards the cache
  storage holds exactly the regions it held before whose name is the STATIC or the
  DYNAMIC name, so no region of another name exists; every enumerated region of
  another name was deleted, and the claim of the clients is the last operation of the
  chain, after all of the deletions.
\<close>

theorem activate_removes_old_regions_then_claims:
  "fst (activate w) = Inr () \<and>
   storage (snd (activate w)) =
     filter (\<lambda>(n, c). n = STATIC_CACHE_NAME \<or> n = DYNAMIC_CACHE_NAME) (storage w) \<and>
   (\<forall>n \<in> set (map fst (storage (snd (activate w)))).
      n = STATIC_CACHE_NAME \<or> n = DYNAMIC_CACHE_NAME) \<and>
   (\<exists>before. trace (snd (activate w)) = trace w @ before @ [(Extended, ClientsClaim)] \<and>
      (\<forall>n \<in> set (map fst (storage w)).
         n \<noteq> STATIC_CACHE_NAME \<and> n \<noteq> DYNAMIC_CACHE_NAME \<longrightarrow>
         (Extended, CachesDelete n) \<in> set before) \<and>
      (\<forall>l. (l, ClientsClaim) \<notin> set before))"
proof -
  let ?before = "[(chain w, ConsoleLog [''[SW] Activating service worker...'']),
                  (Extended, CachesKeys)] @ old_trace Extended (map fst (storage w))"
  have settled: "fst (activate w) = Inr ()"
    by (simp add: activate_run)
  have kept: "storage (snd (activate w)) =
     filter (\<lambda>(n, c). n = STATIC_CACHE_NAME \<or> n = DYNAMIC_CACHE_NAME) (storage w)"
    by (simp add: activate_run)
  have current: "\<forall>n \<in> set (map fst (storage (snd (activate w)))).
      n = STATIC_CACHE_NAME \<or> n = DYNAMIC_CACHE_NAME"
    unfolding kept by auto
  have tr: "trace (snd (activate w)) = trace w @ ?before @ [(Extended, ClientsClaim)]"
    by (simp add: activate_run)
  have deleted: "\<forall>n \<in> set (map fst (storage w)).
         n \<noteq> STATIC_CACHE_NAME \<and> n \<noteq> DYNAMIC_CACHE_NAME \<longrightarrow>
         (Extended, CachesDelete n) \<in> set ?before"
    using old_trace_deletes by simp
  have last: "\<forall>l. (l, ClientsClaim) \<notin> set ?before"
    using old_trace_no_claim by simp
  from tr deleted last have "\<exists>before.
      trace (snd (activate w)) = trace w @ before @ [(Extended, ClientsClaim)] \<and>
      (\<forall>n \<in> set (map fst (storage w)).
         n \<noteq> STATIC_CACHE_NAME \<and> n \<noteq> DYNAMIC_CACHE_NAME \<longrightarrow>
         (Extended, CachesDelete n) \<in> set before) \<and>
      (\<forall>l. (l, ClientsClaim) \<notin> set before)"
    by (intro exI[of _ ?before] conjI)
  with settled kept current show ?thesis by (intro conjI)
qed

theorem activate_removes_old_regions_then_claims_witness:
  "map fst (storage upgraded_world) = [''shorelore-v0.9.0'', ''shorelore-dynamic-v1.0.0''] \<and>
   fst (activate upgraded_world) = Inr () \<and>
   storage (snd (activate upgraded_world)) =
     [(''shorelore-dynamic-v1.0.0'', [(''https://shorelore.app/api/posts'', posts_response)])]"
proof -
  note t = activate_removes_old_regions_then_claims[of upgraded_world]
  from t have a: "fst (activate upgraded_world) = Inr ()" by (rule conjunct1)
  from t have b: "storage (snd (activate upgraded_world)) =
     filter (\<lambda>(n, c). n = STATIC_CACHE_NAME \<or> n = DYNAMIC_CACHE_NAME) (storage upgraded_world)"
    by (rule conjunct1[OF conjunct2])
  from a b show ?thesis
    by (simp add: upgraded_world_def STATIC_CACHE_NAME_def DYNAMIC_CACHE_NAME_def)
qed

subsection \<open>The install listener\<close>

lemma promise_all_emit:
  "\<exists>rs. promise_all (map (\<lambda>u. emit (NetFetch (resolve_url pf u))) urls) w =
     (Inr rs, w\<lparr>trace := trace w @ fetch_trace pf (chain w) urls\<rparr>)"
proof (induction urls arbitrary: w)
  case Nil
  then show ?case by (simp add: fetch_trace_def)
next
  case (Cons u urls)
  let ?w1 = "w\<lparr>trace := trace w @ [(chain w, NetFetch (resolve_url pf u))]\<rparr>"
  from Cons[of ?w1] obtain rs where
    "promise_all (map (\<lambda>u. emit (NetFetch (resolve_url pf u))) urls) ?w1 =
       (Inr rs, ?w1\<lparr>trace := trace ?w1 @ fetch_trace pf (chain ?w1) urls\<rparr>)" by blast
  then show ?case by (simp add: emit_def fetch_trace_def)
qed

lemma cache_addAll_run:
  "cache_addAll pf cache urls w =
     (case fetch_all pf urls of
        Inl e \<Rightarrow>
          (Inl e, w\<lparr>trace := trace w @ (chain w, CacheAddAll cache urls) #
                                fetch_trace pf (chain w) urls\<rparr>)
      | Inr rs \<Rightarrow>
          (Inr (), w\<lparr>storage := update_region cache (put_all rs) (storage w),
                     trace := trace w @ (chain w, CacheAddAll cache urls) #
                                fetch_trace pf (chain w) urls\<rparr>))"
proof -
  let ?w1 = "w\<lparr>trace := trace w @ [(chain w, CacheAddAll cache urls)]\<rparr>"
  obtain rs where
    "promise_all (map (\<lambda>u. emit (NetFetch (resolve_url pf u))) urls) ?w1 =
       (Inr rs, ?w1\<lparr>trace := trace ?w1 @ fetch_trace pf (chain ?w1) urls\<rparr>)"
    using promise_all_emit by blast
  then show ?thesis
    by (simp add: cache_addAll_def then_p_def emit_def split: sum.splits)
qed

lemma install_run:
  "install pf w =
     (Inr (),
      case fetch_all pf STATIC_FILES of
        Inl e \<Rightarrow>
          w\<lparr>storage := open_storage STATIC_CACHE_NAME (storage w),
            trace := trace w @
              [(chain w, ConsoleLog [''[SW] Installing service worker...'']),
               (Extended, CachesOpen STATIC_CACHE_NAME),
               (Extended, ConsoleLog [''[SW] Caching static files'']),
               (Extended, CacheAddAll STATIC_CACHE_NAME STATIC_FILES)]
              @ fetch_trace pf Extended STATIC_FILES
              @ [(Extended, ConsoleError [''[SW] Failed to cache static files:'', message e]),
                 (chain w, SkipWaiting)]\<rparr>
      | Inr rs \<Rightarrow>
          w\<lparr>storage := update_region STATIC_CACHE_NAME (put_all rs)
                         (open_storage STATIC_CACHE_NAME (storage w)),
            trace := trace w @
              [(chain w, ConsoleLog [''[SW] Installing service worker...'']),
               (Extended, CachesOpen STATIC_CACHE_NAME),
               (Extended, ConsoleLog [''[SW] Caching static files'']),
               (Extended, CacheAddAll STATIC_CACHE_NAME STATIC_FILES)]
              @ fetch_trace pf Extended STATIC_FILES
              @ [(chain w, SkipWaiting)]\<rparr>)"
  by (simp add: install_def install_chain_def cache_addAll_run promise_defs split: sum.splits)

text \<open>
  C8: the chain the install listener hands to waitUntil always resolves, and skipWaiting
  is requested whatever the population did. When the population fails (and it fails as
  soon as the fetch of one enumerated asset rejects), the failure is logged with
  console.error and swallowed; the STATIC region was opened and nothing was put in it.
\<close>

theorem install_swallows_population_failure:
  "fst (install pf w) = Inr () \<and>
   (chain w, SkipWaiting) \<in> set (trace (snd (install pf w))) \<and>
   (\<forall>e. fetch_all pf STATIC_FILES = Inl e \<longrightarrow>
      trace (snd (install pf w)) =
        trace w @
          [(chain w, ConsoleLog [''[SW] Installing service worker...'']),
           (Extended, CachesOpen STATIC_CACHE_NAME),
           (Extended, ConsoleLog [''[SW] Caching static files'']),
           (Extended, CacheAddAll STATIC_CACHE_NAME STATIC_FILES)]
          @ fetch_trace pf Extended STATIC_FILES
          @ [(Extended, ConsoleError [''[SW] Failed to cache static files:'', message e]),
             (chain w, SkipWaiting)] \<and>
      storage (snd (install pf w)) = open_storage STATIC_CACHE_NAME (storage w)) \<and>
   (\<forall>u \<in> set STATIC_FILES. \<forall>e. network pf (resolve_url pf u) = Inl e \<longrightarrow>
      (\<exists>e'. fetch_all pf STATIC_FILES = Inl e'))"
proof (intro conjI allI impI ballI)
  show "fst (install pf w) = Inr ()"
    by (simp add: install_run)
  show "(chain w, SkipWaiting) \<in> set (trace (snd (install pf w)))"
    by (simp add: install_run split: sum.splits)
next
  fix e
  assume "fetch_all pf STATIC_FILES = Inl e"
  then show "trace (snd (install pf w)) =
        trace w @
          [(chain w, ConsoleLog [''[SW] Installing service worker...'']),
           (Extended, CachesOpen STATIC_CACHE_NAME),
           (Extended, ConsoleLog [''[SW] Caching static files'']),
           (Extended, CacheAddAll STATIC_CACHE_NAME STATIC_FILES)]
          @ fetch_trace pf Extended STATIC_FILES
          @ [(Extended, ConsoleError [''[SW] Failed to cache static files:'', message e]),
             (chain w, SkipWaiting)]"
    and "storage (snd (install pf w)) = open_storage STATIC_CACHE_NAME (storage w)"
    by (simp_all add: install_run)
next
  fix u e
  assume "u \<in> set STATIC_FILES" and "network pf (resolve_url pf u) = Inl e"
  then show "\<exists>e'. fetch_all pf STATIC_FILES = Inl e'"
    by (rule fetch_all_rejected)
qed

theorem install_swallows_population_failure_witness:
  "fetch_all offline STATIC_FILES = Inl (TypeError ''Failed to fetch'') \<and>
   fst (install offline empty_world) = Inr () \<and>
   (Extended, ConsoleError [''[SW] Failed to cache static files:'', ''Failed to fetch''])
     \<in> set (trace (snd (install offline empty_world))) \<and>
   (Extended, SkipWaiting) \<in> set (trace (snd (install offline empty_world))) \<and>
   storage (snd (install offline empty_world)) = [(''shorelore-static-v1.0.0'', [])]"
proof -
  have failed: "fetch_all offline STATIC_FILES = Inl (TypeError ''Failed to fetch'')"
    by (simp add: offline_def STATIC_FILES_def)
  note t = install_swallows_population_failure[of offline empty_world]
  from t have settled: "fst (install offline empty_world) = Inr ()"
    by (rule conjunct1)
  from t have skip: "(chain empty_world, SkipWaiting) \<in> set (trace (snd (install offline empty_world)))"
    by (rule conjunct1[OF conjunct2])
  from t failed have
    logged: "trace (snd (install offline empty_world)) =
        trace empty_world @
          [(chain empty_world, ConsoleLog [''[SW] Installing service worker...'']),
           (Extended, CachesOpen STATIC_CACHE_NAME),
           (Extended, ConsoleLog [''[SW] Caching static files'']),
           (Extended, CacheAddAll STATIC_CACHE_NAME STATIC_FILES)]
          @ fetch_trace offline Extended STATIC_FILES
          @ [(Extended, ConsoleError [''[SW] Failed to cache static files:'',
                                      message (TypeError ''Failed to fetch'')]),
             (chain empty_world, SkipWaiting)]"
    and opened: "storage (snd (install offline empty_world)) =
        open_storage STATIC_CACHE_NAME (storage empty_world)"
    by blast+
  have "(Extended, ConsoleError [''[SW] Failed to cache static files:'', ''Failed to fetch''])
     \<in> set (trace (snd (install offline empty_world)))"
    unfolding logged by simp
  with failed settled skip opened show ?thesis
    by (simp add: empty_world_def open_storage_def STATIC_CACHE_NAME_def)
qed

subsection \<open>The message listener\<close>

lemma update_cache_chain_run:
  "update_cache_chain pf event w =
     (case fetch_all pf STATIC_FILES of
        Inl e \<Rightarrow>
          post_to_first_port event \<lparr>success = False, error = Some (message e)\<rparr>
            (w\<lparr>storage := cleared (storage w),
               trace := trace w @ update_trace pf (chain w)\<rparr>)
      | Inr rs \<Rightarrow>
          catch_p (post_to_first_port event \<lparr>success = True, error = None\<rparr>)
            (\<lambda>error. post_to_first_port event \<lparr>success = False, error = Some (message error)\<rparr>)
            (w\<lparr>storage := update_region STATIC_CACHE_NAME (put_all rs) (cleared (storage w)),
               trace := trace w @ update_trace pf (chain w)\<rparr>))"
  by (simp add: update_cache_chain_def cache_addAll_run promise_defs update_trace_def cleared_def
      split: sum.splits)

lemma post_to_first_port_none:
  "ports event = [] \<Longrightarrow>
   post_to_first_port event m w = (Inl (TypeError ''Cannot read properties of undefined''), w)"
  by (simp add: post_to_first_port_def reject_def)

lemma post_to_first_port_some:
  "ports event = port # others \<Longrightarrow>
   post_to_first_port event m w =
     (Inr (), w\<lparr>trace := trace w @ [(chain w, PostMessage port m)]\<rparr>)"
  by (simp add: post_to_first_port_def postMessage_def emit_def)

lemma update_trace_no_post: "(l, PostMessage port m) \<notin> set (update_trace pf l')"
  by (auto simp: update_trace_def fetch_trace_def)

lemma cleared_eq:
  "update_region STATIC_CACHE_NAME f (cleared st) =
     filter (\<lambda>(n, c). n \<noteq> STATIC_CACHE_NAME \<and> n \<noteq> DYNAMIC_CACHE_NAME) st
       @ [(STATIC_CACHE_NAME, f [])]"
proof -
  let ?st2 = "delete_storage DYNAMIC_CACHE_NAME (delete_storage STATIC_CACHE_NAME st)"
  have absent: "STATIC_CACHE_NAME \<notin> set (map fst ?st2)"
    by (auto simp: delete_storage_def)
  have flt: "?st2 = filter (\<lambda>(n, c). n \<noteq> STATIC_CACHE_NAME \<and> n \<noteq> DYNAMIC_CACHE_NAME) st"
    by (auto simp: delete_storage_def intro!: filter_cong)
  have "update_region STATIC_CACHE_NAME f (cleared st) =
          update_region STATIC_CACHE_NAME f ?st2 @ [(STATIC_CACHE_NAME, f [])]"
    using absent by (simp add: cleared_def open_storage_def update_region_def)
  then show ?thesis using absent flt by (simp add: update_region_absent)
qed

text \<open>The listener on an UPDATE_CACHE message without a port, and with one.\<close>

lemma message_listener_update_no_port:
  assumes "data_type event = Some ''UPDATE_CACHE''" and "ports event = []"
  shows "message_listener pf event w =
     w\<lparr>storage := (case fetch_all pf STATIC_FILES of
                      Inl e \<Rightarrow> cleared (storage w)
                    | Inr rs \<Rightarrow> update_region STATIC_CACHE_NAME (put_all rs) (cleared (storage w))),
       trace := trace w @ update_trace pf Floating\<rparr>"
  using assms
  by (simp add: message_listener_def detach_def update_cache_chain_run post_to_first_port_none
      catch_p_def split: sum.splits)

lemma message_listener_update_port:
  assumes "data_type event = Some ''UPDATE_CACHE''" and "ports event = port # others"
  shows "message_listener pf event w =
     (case fetch_all pf STATIC_FILES of
        Inl e \<Rightarrow>
          w\<lparr>storage := cleared (storage w),
            trace := trace w @ update_trace pf Floating @
              [(Floating, PostMessage port \<lparr>success = False, error = Some (message e)\<rparr>)]\<rparr>
      | Inr rs \<Rightarrow>
          w\<lparr>storage := update_region STATIC_CACHE_NAME (put_all rs) (cleared (storage w)),
            trace := trace w @ update_trace pf Floating @
              [(Floating, PostMessage port \<lparr>success = True, error = None\<rparr>)]\<rparr>)"
  using assms
  by (simp add: message_listener_def detach_def update_cache_chain_run
      post_to_first_port_some[OF assms(2)] catch_p_def split: sum.splits)

text \<open>
  C10: on an UPDATE_CACHE message whose port list is empty, every attempt to post to the
  first port throws, on the success path and on the failure path alike, so the chain
  rejects with that error; the listener performs the deletions and the repopulation and
  delivers no reply.
\<close>

theorem update_cache_without_port_never_replies:
  assumes "data_type event = Some ''UPDATE_CACHE''" and "ports event = []"
  shows "(\<forall>m w'. fst (post_to_first_port event m w') =
                   Inl (TypeError ''Cannot read properties of undefined'')) \<and>
    fst (update_cache_chain pf event w) =
      Inl (TypeError ''Cannot read properties of undefined'') \<and>
    trace (message_listener pf event w) = trace w @ update_trace pf Floating \<and>
    (\<forall>l port m. (l, PostMessage port m) \<notin> set (update_trace pf Floating))"
proof (intro conjI allI)
  fix m w'
  show "fst (post_to_first_port event m w') =
          Inl (TypeError ''Cannot read properties of undefined'')"
    by (simp add: post_to_first_port_none[OF assms(2)])
next
  show "fst (update_cache_chain pf event w) =
          Inl (TypeError ''Cannot read properties of undefined'')"
    by (simp add: update_cache_chain_run post_to_first_port_none[OF assms(2)] catch_p_def
        split: sum.splits)
next
  show "trace (message_listener pf event w) = trace w @ update_trace pf Floating"
    by (simp add: message_listener_update_no_port[OF assms])
next
  fix l port m
  show "(l, PostMessage port m) \<notin> set (update_trace pf Floating)"
    by (rule update_trace_no_post)
qed

theorem update_cache_without_port_never_replies_witness:
  "ports update_without_port = [] \<and>
   fst (update_cache_chain online update_without_port empty_world) =
     Inl (TypeError ''Cannot read properties of undefined'') \<and>
   fst (update_cache_chain offline update_without_port empty_world) =
     Inl (TypeError ''Cannot read properties of undefined'') \<and>
   trace (message_listener online update_without_port empty_world) =
     update_trace online Floating"
proof -
  have d: "data_type update_without_port = Some ''UPDATE_CACHE''"
    and p: "ports update_without_port = []"
    by (simp_all add: update_without_port_def)
  note on = update_cache_without_port_never_replies[OF d p, of online empty_world]
  note off = update_cache_without_port_never_replies[OF d p, of offline empty_world]
  from on have a: "fst (update_cache_chain online update_without_port empty_world) =
     Inl (TypeError ''Cannot read properties of undefined'')"
    by (rule conjunct1[OF conjunct2])
  from off have b: "fst (update_cache_chain offline update_without_port empty_world) =
     Inl (TypeError ''Cannot read properties of undefined'')"
    by (rule conjunct1[OF conjunct2])
  from on have c: "trace (message_listener online update_without_port empty_world) =
     trace empty_world @ update_trace online Floating"
    by (rule conjunct1[OF conjunct2[OF conjunct2]])
  from p a b c show ?thesis by (simp add: empty_world_def)
qed

lemma static_files_fetched_online: "\<exists>rs. fetch_all online STATIC_FILES = Inr rs"
  by (simp add: online_def STATIC_FILES_def)

lemma posts_not_static:
  "''https://shorelore.app/api/posts'' \<notin> resolve_url online ` set STATIC_FILES"
  by (simp add: online_def STATIC_FILES_def)

text \<open>
  C4 as stated fails: the listener deletes the STATIC and the DYNAMIC region only, and a
  lookup searches every region. In a storage that still holds the region of an earlier
  version, a URL that both that region and the DYNAMIC region hold is still found after
  a successful update.
\<close>

theorem update_cache_keeps_entries_of_other_regions:
  "data_type update_with_port = Some ''UPDATE_CACHE'' \<and>
   region DYNAMIC_CACHE_NAME (storage upgraded_world) =
     Some [(''https://shorelore.app/api/posts'', posts_response)] \<and>
   ''https://shorelore.app/api/posts'' \<notin> resolve_url online ` set STATIC_FILES \<and>
   (Floating, PostMessage 7 \<lparr>success = True, error = None\<rparr>)
     \<in> set (trace (message_listener online update_with_port upgraded_world)) \<and>
   region DYNAMIC_CACHE_NAME (storage (message_listener online update_with_port upgraded_world))
     = None \<and>
   match_storage ''https://shorelore.app/api/posts''
     (storage (message_listener online update_with_port upgraded_world)) = Some posts_response"
proof -
  have d: "data_type update_with_port = Some ''UPDATE_CACHE''"
    and p: "ports update_with_port = 7 # []"
    by (simp_all add: update_with_port_def)
  obtain rs where rs: "fetch_all online STATIC_FILES = Inr rs"
    using static_files_fetched_online by blast
  have run: "message_listener online update_with_port upgraded_world =
      upgraded_world
        \<lparr>storage := filter (\<lambda>(n, c). n \<noteq> STATIC_CACHE_NAME \<and> n \<noteq> DYNAMIC_CACHE_NAME)
                      (storage upgraded_world) @ [(STATIC_CACHE_NAME, put_all rs [])],
         trace := trace upgraded_world @ update_trace online Floating @
           [(Floating, PostMessage 7 \<lparr>success = True, error = None\<rparr>)]\<rparr>"
    by (simp add: message_listener_update_port[OF d p] rs cleared_eq)
  have "set (map fst rs) = set (map (resolve_url online) STATIC_FILES)"
    using fetch_all_keys[OF rs] by simp
  then have keys: "fst ` set rs = resolve_url online ` set STATIC_FILES"
    by simp
  have none: "map_of (put_all rs []) ''https://shorelore.app/api/posts'' = None"
    by (simp add: map_of_put_all keys posts_not_static)
  have old: "filter (\<lambda>(n, c). n \<noteq> STATIC_CACHE_NAME \<and> n \<noteq> DYNAMIC_CACHE_NAME)
               (storage upgraded_world) =
             [(''shorelore-v0.9.0'', [(''https://shorelore.app/api/posts'', posts_response)])]"
    by (simp add: upgraded_world_def STATIC_CACHE_NAME_def DYNAMIC_CACHE_NAME_def)
  have storage_after: "storage (upgraded_world
        \<lparr>storage := filter (\<lambda>(n, c). n \<noteq> STATIC_CACHE_NAME \<and> n \<noteq> DYNAMIC_CACHE_NAME)
                      (storage upgraded_world) @ [(STATIC_CACHE_NAME, put_all rs [])],
         trace := trace upgraded_world @ update_trace online Floating @
           [(Floating, PostMessage 7 \<lparr>success = True, error = None\<rparr>)]\<rparr>) =
      [(''shorelore-v0.9.0'', [(''https://shorelore.app/api/posts'', posts_response)]),
       (STATIC_CACHE_NAME, put_all rs [])]"
    by (simp add: old)
  have before: "region DYNAMIC_CACHE_NAME (storage upgraded_world) =
     Some [(''https://shorelore.app/api/posts'', posts_response)]"
    by (simp add: upgraded_world_def region_def DYNAMIC_CACHE_NAME_def)
  have replied: "(Floating, PostMessage 7 \<lparr>success = True, error = None\<rparr>)
     \<in> set (trace (message_listener online update_with_port upgraded_world))"
    unfolding run by simp
  have gone: "region DYNAMIC_CACHE_NAME
       (storage (message_listener online update_with_port upgraded_world)) = None"
    unfolding run storage_after
    by (simp add: region_def STATIC_CACHE_NAME_def DYNAMIC_CACHE_NAME_def)
  have found: "match_storage ''https://shorelore.app/api/posts''
     (storage (message_listener online update_with_port upgraded_world)) = Some posts_response"
    unfolding run storage_after by simp
  from d before posts_not_static replied gone found show ?thesis
    by (intro conjI)
qed

text \<open>
  C4, amended: on an UPDATE_CACHE message with a reply port, the listener deletes the
  STATIC region, then the DYNAMIC region, then opens the STATIC region again and
  populates it from the enumerated list, and posts one reply to the first port:
  {success: true} when the population succeeded, {success: false, error: message} when
  it failed. After a success the DYNAMIC region does not exist, the other regions are
  as they were, every enumerated asset is found by a lookup, and a lookup of a URL that
  is not an enumerated asset and that no region other than STATIC and DYNAMIC held
  finds nothing.
\<close>

theorem update_cache_replies_and_repopulates:
  assumes "data_type event = Some ''UPDATE_CACHE''" and "ports event = port # others"
  shows "trace (message_listener pf event w) =
      trace w @
        [(Floating, CachesDelete STATIC_CACHE_NAME),
         (Floating, CachesDelete DYNAMIC_CACHE_NAME),
         (Floating, CachesOpen STATIC_CACHE_NAME),
         (Floating, CacheAddAll STATIC_CACHE_NAME STATIC_FILES)]
        @ fetch_trace pf Floating STATIC_FILES
        @ [(Floating, PostMessage port
              (case fetch_all pf STATIC_FILES of
                 Inr rs \<Rightarrow> \<lparr>success = True, error = None\<rparr>
               | Inl e \<Rightarrow> \<lparr>success = False, error = Some (message e)\<rparr>))] \<and>
    (\<forall>rs. fetch_all pf STATIC_FILES = Inr rs \<longrightarrow>
       storage (message_listener pf event w) =
         filter (\<lambda>(n, c). n \<noteq> STATIC_CACHE_NAME \<and> n \<noteq> DYNAMIC_CACHE_NAME) (storage w)
           @ [(STATIC_CACHE_NAME, put_all rs [])] \<and>
       region DYNAMIC_CACHE_NAME (storage (message_listener pf event w)) = None \<and>
       (\<forall>f \<in> set STATIC_FILES.
          match_storage (resolve_url pf f) (storage (message_listener pf event w)) \<noteq> None) \<and>
       (\<forall>u. u \<notin> resolve_url pf ` set STATIC_FILES \<and>
            (\<forall>(n, c) \<in> set (storage w).
               n \<noteq> STATIC_CACHE_NAME \<and> n \<noteq> DYNAMIC_CACHE_NAME \<longrightarrow> map_of c u = None) \<longrightarrow>
            match_storage u (storage (message_listener pf event w)) = None))"
proof (intro conjI allI impI)
  show "trace (message_listener pf event w) =
      trace w @
        [(Floating, CachesDelete STATIC_CACHE_NAME),
         (Floating, CachesDelete DYNAMIC_CACHE_NAME),
         (Floating, CachesOpen STATIC_CACHE_NAME),
         (Floating, CacheAddAll STATIC_CACHE_NAME STATIC_FILES)]
        @ fetch_trace pf Floating STATIC_FILES
        @ [(Floating, PostMessage port
              (case fetch_all pf STATIC_FILES of
                 Inr rs \<Rightarrow> \<lparr>success = True, error = None\<rparr>
               | Inl e \<Rightarrow> \<lparr>success = False, error = Some (message e)\<rparr>))]"
    by (simp add: message_listener_update_port[OF assms] update_trace_def split: sum.splits)
next
  fix rs
  assume rs: "fetch_all pf STATIC_FILES = Inr rs"
  let ?others = "filter (\<lambda>(n, c). n \<noteq> STATIC_CACHE_NAME \<and> n \<noteq> DYNAMIC_CACHE_NAME) (storage w)"
  show st: "storage (message_listener pf event w) = ?others @ [(STATIC_CACHE_NAME, put_all rs [])]"
    by (simp add: message_listener_update_port[OF assms] rs cleared_eq)
  have "set (map fst rs) = set (map (resolve_url pf) STATIC_FILES)"
    using fetch_all_keys[OF rs] by simp
  then have keys: "fst ` set rs = resolve_url pf ` set STATIC_FILES"
    by simp
  have "DYNAMIC_CACHE_NAME \<notin> fst ` set ?others"
    by auto
  then have "map_of ?others DYNAMIC_CACHE_NAME = None"
    by (simp add: map_of_eq_None_iff)
  then show "region DYNAMIC_CACHE_NAME (storage (message_listener pf event w)) = None"
    unfolding st region_def
    by (simp add: map_add_def STATIC_CACHE_NAME_def DYNAMIC_CACHE_NAME_def)
  show "\<forall>f \<in> set STATIC_FILES.
          match_storage (resolve_url pf f) (storage (message_listener pf event w)) \<noteq> None"
  proof
    fix f
    assume "f \<in> set STATIC_FILES"
    then have "resolve_url pf f \<in> fst ` set rs"
      unfolding keys by simp
    then have "map_of (put_all rs []) (resolve_url pf f) \<noteq> None"
      by (simp add: map_of_put_all)
    then show "match_storage (resolve_url pf f) (storage (message_listener pf event w)) \<noteq> None"
      unfolding st match_storage_None_iff by auto
  qed
next
  fix rs u
  assume rs: "fetch_all pf STATIC_FILES = Inr rs"
    and u: "u \<notin> resolve_url pf ` set STATIC_FILES \<and>
            (\<forall>(n, c) \<in> set (storage w).
               n \<noteq> STATIC_CACHE_NAME \<and> n \<noteq> DYNAMIC_CACHE_NAME \<longrightarrow> map_of c u = None)"
  let ?others = "filter (\<lambda>(n, c). n \<noteq> STATIC_CACHE_NAME \<and> n \<noteq> DYNAMIC_CACHE_NAME) (storage w)"
  have st: "storage (message_listener pf event w) = ?others @ [(STATIC_CACHE_NAME, put_all rs [])]"
    by (simp add: message_listener_update_port[OF assms] rs cleared_eq)
  have "set (map fst rs) = set (map (resolve_url pf) STATIC_FILES)"
    using fetch_all_keys[OF rs] by simp
  then have keys: "fst ` set rs = resolve_url pf ` set STATIC_FILES"
    by simp
  have fresh: "map_of (put_all rs []) u = None"
    using u by (simp add: map_of_put_all keys)
  have rest: "\<forall>(n, c) \<in> set ?others. map_of c u = None"
    using u by auto
  show "match_storage u (storage (message_listener pf event w)) = None"
    unfolding st match_storage_None_iff using fresh rest by auto
qed

theorem update_cache_replies_and_repopulates_witness:
  "ports update_with_port = [7] \<and>
   match_storage ''https://shorelore.app/api/posts'' (storage dynamic_world) =
     Some posts_response \<and>
   (Floating, PostMessage 7 \<lparr>success = True, error = None\<rparr>)
     \<in> set (trace (message_listener online update_with_port dynamic_world)) \<and>
   match_storage ''https://shorelore.app/api/posts''
     (storage (message_listener online update_with_port dynamic_world)) = None \<and>
   match_storage ''https://shorelore.app/index.html''
     (storage (message_listener online update_with_port dynamic_world)) \<noteq> None \<and>
   (Floating, PostMessage 7 \<lparr>success = False, error = Some ''Failed to fetch''\<rparr>)
     \<in> set (trace (message_listener offline update_with_port dynamic_world))"
proof -
  have d: "data_type update_with_port = Some ''UPDATE_CACHE''"
    and p: "ports update_with_port = 7 # []"
    by (simp_all add: update_with_port_def)
  obtain rs where rs: "fetch_all online STATIC_FILES = Inr rs"
    using static_files_fetched_online by blast
  have failed: "fetch_all offline STATIC_FILES = Inl (TypeError ''Failed to fetch'')"
    by (simp add: offline_def STATIC_FILES_def)
  note on = update_cache_replies_and_repopulates[OF d p, of online dynamic_world]
  note off = update_cache_replies_and_repopulates[OF d p, of offline dynamic_world]
  have held: "match_storage ''https://shorelore.app/api/posts'' (storage dynamic_world) =
     Some posts_response"
    by (simp add: dynamic_world_def)
  from on have "trace (message_listener online update_with_port dynamic_world) =
      trace dynamic_world @
        [(Floating, CachesDelete STATIC_CACHE_NAME),
         (Floating, CachesDelete DYNAMIC_CACHE_NAME),
         (Floating, CachesOpen STATIC_CACHE_NAME),
         (Floating, CacheAddAll STATIC_CACHE_NAME STATIC_FILES)]
        @ fetch_trace online Floating STATIC_FILES
        @ [(Floating, PostMessage 7
              (case fetch_all online STATIC_FILES of
                 Inr rs \<Rightarrow> \<lparr>success = True, error = None\<rparr>
               | Inl e \<Rightarrow> \<lparr>success = False, error = Some (message e)\<rparr>))]"
    by (rule conjunct1)
  then have yes: "(Floating, PostMessage 7 \<lparr>success = True, error = None\<rparr>)
     \<in> set (trace (message_listener online update_with_port dynamic_world))"
    by (simp add: rs)
  from off have "trace (message_listener offline update_with_port dynamic_world) =
      trace dynamic_world @
        [(Floating, CachesDelete STATIC_CACHE_NAME),
         (Floating, CachesDelete DYNAMIC_CACHE_NAME),
         (Floating, CachesOpen STATIC_CACHE_NAME),
         (Floating, CacheAddAll STATIC_CACHE_NAME STATIC_FILES)]
        @ fetch_trace offline Floating STATIC_FILES
        @ [(Floating, PostMessage 7
              (case fetch_all offline STATIC_FILES of
                 Inr rs \<Rightarrow> \<lparr>success = True, error = None\<rparr>
               | Inl e \<Rightarrow> \<lparr>success = False, error = Some (message e)\<rparr>))]"
    by (rule conjunct1)
  then have no: "(Floating, PostMessage 7 \<lparr>success = False, error = Some ''Failed to fetch''\<rparr>)
     \<in> set (trace (message_listener offline update_with_port dynamic_world))"
    by (simp add: failed)
  from on rs have after:
    "\<forall>f \<in> set STATIC_FILES.
       match_storage (resolve_url online f)
         (storage (message_listener online update_with_port dynamic_world)) \<noteq> None"
    "\<forall>u. u \<notin> resolve_url online ` set STATIC_FILES \<and>
        (\<forall>(n, c) \<in> set (storage dynamic_world).
           n \<noteq> STATIC_CACHE_NAME \<and> n \<noteq> DYNAMIC_CACHE_NAME \<longrightarrow> map_of c u = None) \<longrightarrow>
        match_storage u (storage (message_listener online update_with_port dynamic_world)) = None"
    by blast+
  have "''/index.html'' \<in> set STATIC_FILES"
    by (simp add: STATIC_FILES_def)
  with after(1) have "match_storage (resolve_url online ''/index.html'')
         (storage (message_listener online update_with_port dynamic_world)) \<noteq> None"
    by blast
  then have shell: "match_storage ''https://shorelore.app/index.html''
     (storage (message_listener online update_with_port dynamic_world)) \<noteq> None"
    by (simp add: online_def)
  have "\<forall>(n, c) \<in> set (storage dynamic_world).
           n \<noteq> STATIC_CACHE_NAME \<and> n \<noteq> DYNAMIC_CACHE_NAME \<longrightarrow>
           map_of c ''https://shorelore.app/api/posts'' = None"
    by (simp add: dynamic_world_def DYNAMIC_CACHE_NAME_def)
  with after(2) posts_not_static have gone: "match_storage ''https://shorelore.app/api/posts''
     (storage (message_listener online update_with_port dynamic_world)) = None"
    by blast
  from p held yes gone shell no show ?thesis
    by (intro conjI) simp_all
qed

end
